theory Spec2Isabelle
  imports Main "HOL-Library.Word"
begin

section \<open>Python values and errors used by \<^verbatim>\<open>discord/asset.py\<close>\<close>

type_synonym bytes = "8 word list"

text \<open>
  The exceptions the module raises itself (\<open>InvalidArgument\<close>, \<open>DiscordException\<close>), the
  ones the transport documents (\<open>HTTPException\<close>, \<open>NotFound\<close>) and the ones that reach
  \<^verbatim>\<open>save\<close> from the destination: \<open>TypeError\<close> from the builtin \<^verbatim>\<open>open\<close> for an argument
  that is no path, \<open>OSError\<close> from \<^verbatim>\<open>open\<close> or \<^verbatim>\<open>write\<close>, and \<open>UnsupportedOperation\<close> from
  \<^verbatim>\<open>seek\<close> on a stream that cannot seek. The messages built
  with an f-string over a frozenset end where the rendering of the set would start: its
  order is not fixed by the language.
\<close>

datatype error =
    InvalidArgument string
  | DiscordException string
  | HTTPException
  | NotFound
  | TypeError
  | OSError
  | UnsupportedOperation

text \<open>\<^verbatim>\<open>str(n)\<close> for an integer, as an f-string field \<^verbatim>\<open>{user.id}\<close> renders it.\<close>

definition digit_char :: "nat \<Rightarrow> char" where
  "digit_char d = ''0123456789'' ! d"

fun str_nat :: "nat \<Rightarrow> string" where
  "str_nat n = (if n < 10 then [digit_char n] else str_nat (n div 10) @ [digit_char (n mod 10)])"

declare str_nat.simps [simp del]

definition str_int :: "int \<Rightarrow> string" where
  "str_int i = (if i < 0 then CHR ''-'' # str_nat (nat (- i)) else str_nat (nat i))"

text \<open>Truthiness of an optional string: \<^verbatim>\<open>None\<close> and \<^verbatim>\<open>''\<close> are falsy.\<close>

fun truthy :: "string option \<Rightarrow> bool" where
  "truthy None = False"
| "truthy (Some s) = (s \<noteq> [])"

section \<open>Module constants\<close>

definition VALID_STATIC_FORMATS :: "string set" where
  "VALID_STATIC_FORMATS = {''jpeg'', ''jpg'', ''webp'', ''png''}"

definition VALID_AVATAR_FORMATS :: "string set" where
  "VALID_AVATAR_FORMATS = VALID_STATIC_FORMATS \<union> {''gif''}"

definition BASE :: string where
  "BASE = ''https://cdn.discordapp.com''"

text \<open>
  Modelled from the spec: \<^verbatim>\<open>utils.valid_icon_size\<close> lives in \<^verbatim>\<open>discord/utils.py\<close>,
  which is not part of the sources at hand. The specification says of it: the size
  "must be a power of two within [16, 4096]". The exponent is searched below 13, since
  \<open>2 ^ 13\<close> already exceeds 4096.
\<close>

definition valid_icon_size :: "int \<Rightarrow> bool" where
  "valid_icon_size sz = ((\<exists>k \<in> {..<13::nat}. sz = 2 ^ k) \<and> 16 \<le> sz \<and> sz \<le> 4096)"

section \<open>The connection state and the Asset class\<close>

record http_client =
  get_from_cdn :: "string \<Rightarrow> error + bytes"

record connection_state =
  http :: http_client

record asset =
  state :: "connection_state option"
  url :: "string option"

definition asset_init :: "connection_state option \<Rightarrow> string option \<Rightarrow> asset" where
  "asset_init st u = \<lparr>state = st, url = u\<rparr>"

section \<open>The objects the factories read\<close>

text \<open>
  The classes of these objects are defined elsewhere in the library; a factory only reads
  the attributes listed here. The methods \<^verbatim>\<open>is_avatar_animated()\<close> and
  \<^verbatim>\<open>is_icon_animated()\<close> are taken as given answers.
\<close>

record user =
  user_id :: int
  user_avatar :: "string option"
  user_is_avatar_animated :: bool
  user_default_avatar_url :: asset

record icon_object =
  object_id :: int
  object_icon :: "string option"

record cover_object =
  obj_id :: int
  obj_cover_image :: "string option"

record guild =
  guild_id :: int
  guild_icon :: "string option"
  guild_is_icon_animated :: bool

record sticker =
  sticker_id :: int
  sticker_image :: string

record emoji =
  emoji_id :: int
  emoji_animated :: bool

section \<open>The factories\<close>

definition size_error :: error where
  "size_error = InvalidArgument ''size must be a power of 2 between 16 and 4096''"

definition from_avatar ::
  "connection_state option \<Rightarrow> user \<Rightarrow> string option \<Rightarrow> string \<Rightarrow> int \<Rightarrow> error + asset" where
  "from_avatar st u format static_format sz =
     (if \<not> valid_icon_size sz then Inl size_error
      else if format \<noteq> None \<and> format \<notin> Some ` VALID_AVATAR_FORMATS
        then Inl (InvalidArgument ''format must be None or one of '')
      else if format = Some ''gif'' \<and> \<not> user_is_avatar_animated u
        then Inl (InvalidArgument ''non animated avatars do not support gif format'')
      else if static_format \<notin> VALID_STATIC_FORMATS
        then Inl (InvalidArgument ''static_format must be one of '')
      else (case user_avatar u of
          None \<Rightarrow> Inr (user_default_avatar_url u)
        | Some h \<Rightarrow>
            (let fmt = (case format of
                          None \<Rightarrow> if user_is_avatar_animated u then ''gif'' else static_format
                        | Some f \<Rightarrow> f)
             in Inr (asset_init st (Some (''/avatars/'' @ str_int (user_id u) @ ''/'' @ h @ ''.''
                                          @ fmt @ ''?size='' @ str_int sz))))))"

definition from_icon ::
  "connection_state option \<Rightarrow> icon_object \<Rightarrow> string \<Rightarrow> string \<Rightarrow> int \<Rightarrow> error + asset" where
  "from_icon st object path format sz =
     (case object_icon object of
        None \<Rightarrow> Inr (asset_init st None)
      | Some h \<Rightarrow>
          if \<not> valid_icon_size sz then Inl size_error
          else if format \<notin> VALID_STATIC_FORMATS
            then Inl (InvalidArgument ''format must be None or one of '')
          else Inr (asset_init st (Some (''/'' @ path @ ''-icons/'' @ str_int (object_id object)
                                         @ ''/'' @ h @ ''.'' @ format @ ''?size='' @ str_int sz))))"

definition from_cover_image ::
  "connection_state option \<Rightarrow> cover_object \<Rightarrow> string \<Rightarrow> int \<Rightarrow> error + asset" where
  "from_cover_image st obj format sz =
     (case obj_cover_image obj of
        None \<Rightarrow> Inr (asset_init st None)
      | Some h \<Rightarrow>
          if \<not> valid_icon_size sz then Inl size_error
          else if format \<notin> VALID_STATIC_FORMATS
            then Inl (InvalidArgument ''format must be None or one of '')
          else Inr (asset_init st (Some (''/app-assets/'' @ str_int (obj_id obj) @ ''/store/''
                                         @ h @ ''.'' @ format @ ''?size='' @ str_int sz))))"

definition from_guild_image ::
  "connection_state option \<Rightarrow> int \<Rightarrow> string option \<Rightarrow> string \<Rightarrow> string \<Rightarrow> int \<Rightarrow> error + asset" where
  "from_guild_image st ident hash key format sz =
     (if \<not> valid_icon_size sz then Inl size_error
      else if format \<notin> VALID_STATIC_FORMATS
        then Inl (InvalidArgument ''format must be one of '')
      else (case hash of
          None \<Rightarrow> Inr (asset_init st None)
        | Some h \<Rightarrow> Inr (asset_init st (Some (''/'' @ key @ ''/'' @ str_int ident @ ''/'' @ h
                                              @ ''.'' @ format @ ''?size='' @ str_int sz)))))"

definition from_guild_icon ::
  "connection_state option \<Rightarrow> guild \<Rightarrow> string option \<Rightarrow> string \<Rightarrow> int \<Rightarrow> error + asset" where
  "from_guild_icon st g format static_format sz =
     (if \<not> valid_icon_size sz then Inl size_error
      else if format \<noteq> None \<and> format \<notin> Some ` VALID_AVATAR_FORMATS
        then Inl (InvalidArgument ''format must be one of '')
      else if format = Some ''gif'' \<and> \<not> guild_is_icon_animated g
        then Inl (InvalidArgument ''non animated guild icons do not support gif format'')
      else if static_format \<notin> VALID_STATIC_FORMATS
        then Inl (InvalidArgument ''static_format must be one of '')
      else (case guild_icon g of
          None \<Rightarrow> Inr (asset_init st None)
        | Some h \<Rightarrow>
            (let fmt = (case format of
                          None \<Rightarrow> if guild_is_icon_animated g then ''gif'' else static_format
                        | Some f \<Rightarrow> f)
             in Inr (asset_init st (Some (''/icons/'' @ str_int (guild_id g) @ ''/'' @ h @ ''.''
                                          @ fmt @ ''?size='' @ str_int sz))))))"

definition from_sticker_url ::
  "connection_state option \<Rightarrow> sticker \<Rightarrow> int \<Rightarrow> error + asset" where
  "from_sticker_url st s sz =
     (if \<not> valid_icon_size sz then Inl size_error
      else Inr (asset_init st (Some (''/stickers/'' @ str_int (sticker_id s) @ ''/''
                                     @ sticker_image s @ ''.png?size='' @ str_int sz))))"

definition from_emoji ::
  "connection_state option \<Rightarrow> emoji \<Rightarrow> string option \<Rightarrow> string \<Rightarrow> error + asset" where
  "from_emoji st e format static_format =
     (if format \<noteq> None \<and> format \<notin> Some ` VALID_AVATAR_FORMATS
        then Inl (InvalidArgument ''format must be None or one of '')
      else if format = Some ''gif'' \<and> \<not> emoji_animated e
        then Inl (InvalidArgument ''non animated emoji's do not support gif format'')
      else if static_format \<notin> VALID_STATIC_FORMATS
        then Inl (InvalidArgument ''static_format must be one of '')
      else (let fmt = (case format of
                         None \<Rightarrow> if emoji_animated e then ''gif'' else static_format
                       | Some f \<Rightarrow> f)
            in Inr (asset_init st (Some (''/emojis/'' @ str_int (emoji_id e) @ ''.'' @ fmt)))))"

section \<open>Derived operations\<close>

definition asset_str :: "asset \<Rightarrow> string" where
  "asset_str self = (case url self of None \<Rightarrow> [] | Some u \<Rightarrow> BASE @ u)"

definition asset_len :: "asset \<Rightarrow> nat" where
  "asset_len self =
     (if truthy (url self)
      then (case url self of None \<Rightarrow> 0 | Some u \<Rightarrow> length (BASE @ u))
      else 0)"

definition asset_bool :: "asset \<Rightarrow> bool" where
  "asset_bool self = (url self \<noteq> None)"

text \<open>
  The second operand of \<^verbatim>\<open>==\<close> may be any Python object; \<^verbatim>\<open>isinstance(other, Asset)\<close>
  tells the constructor \<open>PyAsset\<close> from the rest.
\<close>

datatype pyval =
    PyNone
  | PyBool bool
  | PyInt int
  | PyStr string
  | PyAsset asset

fun isinstance_Asset :: "pyval \<Rightarrow> bool" where
  "isinstance_Asset (PyAsset _) = True"
| "isinstance_Asset _ = False"

fun asset_eq :: "asset \<Rightarrow> pyval \<Rightarrow> bool" where
  "asset_eq self (PyAsset other) = (url self = url other)"
| "asset_eq self _ = False"

definition asset_ne :: "asset \<Rightarrow> pyval \<Rightarrow> bool" where
  "asset_ne self other = (\<not> asset_eq self other)"

text \<open>
  \<^verbatim>\<open>__hash__\<close> applies the builtin \<^verbatim>\<open>hash\<close> to the URL. The builtin is salted per
  process, so it is a parameter here.
\<close>

definition asset_hash :: "(string option \<Rightarrow> int) \<Rightarrow> asset \<Rightarrow> int" where
  "asset_hash builtin_hash self = builtin_hash (url self)"

section \<open>The outside world: network, sinks and files\<close>

text \<open>
  An \<^verbatim>\<open>io.IOBase\<close> object as far as \<^verbatim>\<open>save\<close> touches it. Its class is the caller's, so
  its behaviour is data of the object: the answers of \<^verbatim>\<open>writable()\<close> and of
  \<^verbatim>\<open>seekable()\<close>, and what \<^verbatim>\<open>write(b)\<close> does with a buffer: raise, or take the first
  \<open>n\<close> bytes of it and return \<open>n\<close> (a raw stream may take fewer bytes than it is given, a
  buffered one takes them all). The object also keeps the buffers handed to \<^verbatim>\<open>write\<close> so
  far (oldest first), the bytes it has taken, and the stream position.
\<close>

record io_base =
  writable :: bool
  seekable :: bool
  write_outcome :: "bytes \<Rightarrow> error + nat"
  writes :: "bytes list"
  received :: bytes
  position :: nat

datatype fp = IOBase io_base | PathLike string

fun fp_writes :: "fp \<Rightarrow> bytes list" where
  "fp_writes (IOBase f) = writes f"
| "fp_writes (PathLike p) = []"

fun fp_received :: "fp \<Rightarrow> bytes" where
  "fp_received (IOBase f) = received f"
| "fp_received (PathLike p) = []"

text \<open>
  The world keeps the URLs requested from the CDN, the contents of the file system, the
  arguments \<^verbatim>\<open>open(_, 'wb')\<close> was called with, the paths of the handles still open, and
  which paths the file system lets a caller open for writing and write to.
\<close>

record world =
  requests :: "string list"
  files :: "string \<rightharpoonup> bytes"
  opened :: "fp list"
  handles :: "string list"
  can_open :: "string \<Rightarrow> bool"
  can_write :: "string \<Rightarrow> bool"

text \<open>
  \<^verbatim>\<open>fp.write(data)\<close>: the call is logged; the object raises, or takes the bytes its
  \<open>write_outcome\<close> says and returns their number.
\<close>

definition io_write :: "io_base \<Rightarrow> bytes \<Rightarrow> (error + nat) \<times> io_base" where
  "io_write f data =
     (let f1 = f\<lparr>writes := writes f @ [data]\<rparr>
      in case write_outcome f data of
           Inl e \<Rightarrow> (Inl e, f1)
         | Inr n \<Rightarrow>
             (Inr n, f1\<lparr>received := received f @ take n data, position := position f + n\<rparr>))"

text \<open>\<^verbatim>\<open>fp.seek(off)\<close>: a stream that cannot seek raises.\<close>

definition io_seek :: "io_base \<Rightarrow> nat \<Rightarrow> error + io_base" where
  "io_seek f off = (if seekable f then Inr (f\<lparr>position := off\<rparr>) else Inl UnsupportedOperation)"

text \<open>
  The builtin \<^verbatim>\<open>open(fp, 'wb')\<close>: an \<^verbatim>\<open>io.IOBase\<close> object is no path and raises
  \<^verbatim>\<open>TypeError\<close>; a path the file system refuses (empty, a directory, in a missing
  directory, without permission) raises \<^verbatim>\<open>OSError\<close>; any other path is created or
  truncated and a handle on it is returned.
\<close>

definition py_open_wb :: "fp \<Rightarrow> world \<Rightarrow> (error + string) \<times> world" where
  "py_open_wb dest w =
     (let w1 = w\<lparr>opened := opened w @ [dest]\<rparr>
      in case dest of
           IOBase f \<Rightarrow> (Inl TypeError, w1)
         | PathLike p \<Rightarrow>
             if can_open w p
             then (Inr p, w1\<lparr>files := (files w1)(p \<mapsto> []), handles := p # handles w1\<rparr>)
             else (Inl OSError, w1))"

text \<open>
  \<^verbatim>\<open>f.write(data)\<close> on the buffered file \<^verbatim>\<open>open\<close> returned: all of the data is written
  and its length returned, or the file system refuses and \<^verbatim>\<open>OSError\<close> is raised.
\<close>

definition file_write :: "string \<Rightarrow> bytes \<Rightarrow> world \<Rightarrow> (error + nat) \<times> world" where
  "file_write p data w =
     (if can_write w p
      then (Inr (length data),
            w\<lparr>files := (files w)(p \<mapsto> (case files w p of None \<Rightarrow> data | Some old \<Rightarrow> old @ data))\<rparr>)
      else (Inl OSError, w))"

definition file_close :: "string \<Rightarrow> world \<Rightarrow> world" where
  "file_close p w = w\<lparr>handles := remove1 p (handles w)\<rparr>"

section \<open>Fetching and saving\<close>

definition no_url_error :: error where
  "no_url_error = DiscordException ''Invalid asset (no URL provided)''"

definition no_state_error :: error where
  "no_state_error = DiscordException ''Invalid state (no ConnectionState provided)''"

text \<open>
  \<^verbatim>\<open>read\<close> tests \<^verbatim>\<open>not self._url\<close>, then \<^verbatim>\<open>self._state is None\<close>, then calls the
  transport. The request is logged in the world. Past the first test the URL is a
  non-empty string, so the inner \<open>None\<close> case below is never reached.
\<close>

definition read :: "asset \<Rightarrow> world \<Rightarrow> (error + bytes) \<times> world" where
  "read self w =
     (if \<not> truthy (url self) then (Inl no_url_error, w)
      else case state self of
             None \<Rightarrow> (Inl no_state_error, w)
           | Some s \<Rightarrow>
               (case url self of
                  None \<Rightarrow> (Inl no_url_error, w)
                | Some u \<Rightarrow>
                    (get_from_cdn (http s) (BASE @ u), w\<lparr>requests := requests w @ [BASE @ u]\<rparr>)))"

text \<open>
  The \<^verbatim>\<open>else\<close> branch of \<^verbatim>\<open>save\<close>: \<^verbatim>\<open>with open(fp, 'wb') as f: return f.write(data)\<close>.
  The \<^verbatim>\<open>with\<close> statement closes the handle whether the write returns or raises.
\<close>

definition save_to_path :: "fp \<Rightarrow> bytes \<Rightarrow> world \<Rightarrow> (error + nat) \<times> fp \<times> world" where
  "save_to_path dest data w =
     (case py_open_wb dest w of
        (Inl e, w1) \<Rightarrow> (Inl e, dest, w1)
      | (Inr h, w1) \<Rightarrow>
          (case file_write h data w1 of
             (Inl e, w2) \<Rightarrow> (Inl e, dest, file_close h w2)
           | (Inr written, w2) \<Rightarrow> (Inr written, dest, file_close h w2)))"

text \<open>
  \<^verbatim>\<open>save\<close>: read, then either \<^verbatim>\<open>written = fp.write(data)\<close>, \<^verbatim>\<open>fp.seek(0)\<close> when
  \<^verbatim>\<open>seek_begin\<close>, \<^verbatim>\<open>return written\<close>, or the branch of a path. What \<^verbatim>\<open>write\<close> returned
  is returned as it is; an exception of \<^verbatim>\<open>write\<close> or \<^verbatim>\<open>seek\<close> leaves \<^verbatim>\<open>save\<close> as it is,
  the object keeping what it had taken by then.
\<close>

definition save :: "asset \<Rightarrow> fp \<Rightarrow> bool \<Rightarrow> world \<Rightarrow> (error + nat) \<times> fp \<times> world" where
  "save self dest seek_begin w =
     (case read self w of
        (Inl e, w1) \<Rightarrow> (Inl e, dest, w1)
      | (Inr data, w1) \<Rightarrow>
          (case dest of
             IOBase f \<Rightarrow>
               if writable f then
                 (case io_write f data of
                    (Inl e, f1) \<Rightarrow> (Inl e, IOBase f1, w1)
                  | (Inr written, f1) \<Rightarrow>
                      if seek_begin then
                        (case io_seek f1 0 of
                           Inl e \<Rightarrow> (Inl e, IOBase f1, w1)
                         | Inr f2 \<Rightarrow> (Inr written, IOBase f2, w1))
                      else (Inr written, IOBase f1, w1))
               else save_to_path dest data w1
           | PathLike p \<Rightarrow> save_to_path dest data w1))"

section \<open>What the specification says, in its own words\<close>

text \<open>
  "Default format resolution: if format unspecified, use gif when source is animated,
  else the given static format."
\<close>

definition spec_format :: "string option \<Rightarrow> bool \<Rightarrow> string \<Rightarrow> string" where
  "spec_format format animated static_format =
     (case format of
        None \<Rightarrow> if animated then ''gif'' else static_format
      | Some f \<Rightarrow> f)"

text \<open>
  "Static images allow {webp, jpeg, jpg, png}; avatar/icon/emoji-capable assets
  additionally allow {gif}, but only when the underlying source is actually animated."
  An unspecified format is always allowed.
\<close>

definition spec_format_allowed :: "string option \<Rightarrow> bool \<Rightarrow> bool" where
  "spec_format_allowed format animated =
     (case format of
        None \<Rightarrow> True
      | Some f \<Rightarrow> f \<in> {''webp'', ''jpeg'', ''jpg'', ''png''} \<or> (f = ''gif'' \<and> animated))"

text \<open>Error kinds, as predicates on a result.\<close>

fun is_InvalidArgument :: "error + 'a \<Rightarrow> bool" where
  "is_InvalidArgument (Inl (InvalidArgument _)) = True"
| "is_InvalidArgument _ = False"

fun is_DiscordException :: "error + 'a \<Rightarrow> bool" where
  "is_DiscordException (Inl (DiscordException _)) = True"
| "is_DiscordException _ = False"

section \<open>Facts about the helpers\<close>

lemma valid_icon_size_iff:
  "valid_icon_size sz = ((\<exists>k::nat. sz = 2 ^ k) \<and> 16 \<le> sz \<and> sz \<le> 4096)"
proof -
  have "k < 13" if "(2::int) ^ k \<le> 4096" for k :: nat
  proof (rule ccontr)
    assume "\<not> k < 13"
    then have "(2::int) ^ 13 \<le> 2 ^ k" by (intro power_increasing) auto
    with that show False by simp
  qed
  then show ?thesis unfolding valid_icon_size_def by auto
qed

lemma valid_icon_size_256: "valid_icon_size 256"
  by (simp add: valid_icon_size_def lessThan_nat_numeral lessThan_Suc)

lemma str_int_123: "str_int 123 = ''123''"
  by (simp add: str_int_def str_nat.simps digit_char_def)

lemma str_int_256: "str_int 256 = ''256''"
  by (simp add: str_int_def str_nat.simps digit_char_def)

lemma str_int_55: "str_int 55 = ''55''"
  by (simp add: str_int_def str_nat.simps digit_char_def)

lemma webp_static: "''webp'' \<in> VALID_STATIC_FORMATS"
  by (simp add: VALID_STATIC_FORMATS_def)

lemma png_static: "''png'' \<in> VALID_STATIC_FORMATS"
  by (simp add: VALID_STATIC_FORMATS_def)

lemma allowed_avatar_format:
  "spec_format_allowed fo anim \<Longrightarrow>
     \<not> (fo \<noteq> None \<and> fo \<notin> Some ` VALID_AVATAR_FORMATS) \<and> \<not> (fo = Some ''gif'' \<and> \<not> anim)"
  by (cases fo) (auto simp: spec_format_allowed_def VALID_AVATAR_FORMATS_def VALID_STATIC_FORMATS_def)

section \<open>URL templates\<close>

lemma from_avatar_template:
  assumes "valid_icon_size sz" "sf \<in> VALID_STATIC_FORMATS"
    "spec_format_allowed fo (user_is_avatar_animated u)" "user_avatar u = Some h"
  shows "from_avatar st u fo sf sz =
    Inr (asset_init st (Some (''/avatars/'' @ str_int (user_id u) @ ''/'' @ h @ ''.''
      @ spec_format fo (user_is_avatar_animated u) sf @ ''?size='' @ str_int sz)))"
  using assms(1,2,4) allowed_avatar_format[OF assms(3)]
  by (simp add: from_avatar_def spec_format_def)

lemma from_guild_icon_template:
  assumes "valid_icon_size sz" "sf \<in> VALID_STATIC_FORMATS"
    "spec_format_allowed fo (guild_is_icon_animated g)" "guild_icon g = Some h"
  shows "from_guild_icon st g fo sf sz =
    Inr (asset_init st (Some (''/icons/'' @ str_int (guild_id g) @ ''/'' @ h @ ''.''
      @ spec_format fo (guild_is_icon_animated g) sf @ ''?size='' @ str_int sz)))"
  using assms(1,2,4) allowed_avatar_format[OF assms(3)]
  by (simp add: from_guild_icon_def spec_format_def)

lemma from_emoji_template:
  assumes "sf \<in> VALID_STATIC_FORMATS" "spec_format_allowed fo (emoji_animated e)"
  shows "from_emoji st e fo sf =
    Inr (asset_init st (Some (''/emojis/'' @ str_int (emoji_id e) @ ''.''
      @ spec_format fo (emoji_animated e) sf)))"
  using assms(1) allowed_avatar_format[OF assms(2)]
  by (simp add: from_emoji_def spec_format_def)

lemma from_icon_template:
  assumes "valid_icon_size sz" "sf \<in> VALID_STATIC_FORMATS" "object_icon ob = Some h"
  shows "from_icon st ob path sf sz =
    Inr (asset_init st (Some (''/'' @ path @ ''-icons/'' @ str_int (object_id ob) @ ''/'' @ h
      @ ''.'' @ sf @ ''?size='' @ str_int sz)))"
  using assms by (simp add: from_icon_def)

lemma from_cover_image_template:
  assumes "valid_icon_size sz" "sf \<in> VALID_STATIC_FORMATS" "obj_cover_image ob = Some h"
  shows "from_cover_image st ob sf sz =
    Inr (asset_init st (Some (''/app-assets/'' @ str_int (obj_id ob) @ ''/store/'' @ h
      @ ''.'' @ sf @ ''?size='' @ str_int sz)))"
  using assms by (simp add: from_cover_image_def)

lemma from_guild_image_template:
  assumes "valid_icon_size sz" "sf \<in> VALID_STATIC_FORMATS"
  shows "from_guild_image st i (Some h) key sf sz =
    Inr (asset_init st (Some (''/'' @ key @ ''/'' @ str_int i @ ''/'' @ h
      @ ''.'' @ sf @ ''?size='' @ str_int sz)))"
  using assms by (simp add: from_guild_image_def)

lemma from_sticker_url_template:
  assumes "valid_icon_size sz"
  shows "from_sticker_url st s sz =
    Inr (asset_init st (Some (''/stickers/'' @ str_int (sticker_id s) @ ''/'' @ sticker_image s
      @ ''.png?size='' @ str_int sz)))"
  using assms by (simp add: from_sticker_url_def)

lemma avatar_example:
  "from_avatar st \<lparr>user_id = 123, user_avatar = Some ''abc'', user_is_avatar_animated = False,
      user_default_avatar_url = d\<rparr> None ''webp'' 256
     = Inr (asset_init st (Some ''/avatars/123/abc.webp?size=256''))"
  by (simp add: from_avatar_template valid_icon_size_256 webp_static spec_format_allowed_def
      spec_format_def str_int_123 str_int_256)

lemma emoji_example:
  "from_emoji st \<lparr>emoji_id = 55, emoji_animated = True\<rparr> None ''png''
     = Inr (asset_init st (Some ''/emojis/55.gif''))"
  by (simp add: from_emoji_template png_static spec_format_allowed_def spec_format_def str_int_55)

lemma avatar_example_str:
  "asset_str (asset_init st (Some ''/avatars/123/abc.webp?size=256''))
     = ''https://cdn.discordapp.com/avatars/123/abc.webp?size=256''"
  by (simp add: asset_str_def asset_init_def BASE_def)

text \<open>
  C1. For every valid input (a valid size, a valid static format, a format the source
  allows, an image set), each of the seven factories returns the Asset whose URL path is
  the template of its kind, with the format resolved as the specification says. In
  particular the avatar factory with id 123, hash \<open>abc\<close>, a non-animated source, no format
  and size 256 yields \<open>/avatars/123/abc.webp?size=256\<close>, whose full URL is
  \<open>https://cdn.discordapp.com/avatars/123/abc.webp?size=256\<close>, and the emoji factory with
  id 55, an animated source and no format yields \<open>/emojis/55.gif\<close>, with no size
  parameter.
\<close>

theorem factory_url_templates:
  assumes "valid_icon_size sz" and "sf \<in> VALID_STATIC_FORMATS"
  shows
   "(spec_format_allowed fo (user_is_avatar_animated u) \<and> user_avatar u = Some h \<longrightarrow>
       from_avatar st u fo sf sz =
         Inr (asset_init st (Some (''/avatars/'' @ str_int (user_id u) @ ''/'' @ h @ ''.''
           @ spec_format fo (user_is_avatar_animated u) sf @ ''?size='' @ str_int sz))))
    \<and> (object_icon ob = Some h \<longrightarrow>
       from_icon st ob path sf sz =
         Inr (asset_init st (Some (''/'' @ path @ ''-icons/'' @ str_int (object_id ob) @ ''/''
           @ h @ ''.'' @ sf @ ''?size='' @ str_int sz))))
    \<and> (obj_cover_image co = Some h \<longrightarrow>
       from_cover_image st co sf sz =
         Inr (asset_init st (Some (''/app-assets/'' @ str_int (obj_id co) @ ''/store/'' @ h
           @ ''.'' @ sf @ ''?size='' @ str_int sz))))
    \<and> from_guild_image st i (Some h) key sf sz =
         Inr (asset_init st (Some (''/'' @ key @ ''/'' @ str_int i @ ''/'' @ h
           @ ''.'' @ sf @ ''?size='' @ str_int sz)))
    \<and> (spec_format_allowed fo (guild_is_icon_animated g) \<and> guild_icon g = Some h \<longrightarrow>
       from_guild_icon st g fo sf sz =
         Inr (asset_init st (Some (''/icons/'' @ str_int (guild_id g) @ ''/'' @ h @ ''.''
           @ spec_format fo (guild_is_icon_animated g) sf @ ''?size='' @ str_int sz))))
    \<and> from_sticker_url st s sz =
         Inr (asset_init st (Some (''/stickers/'' @ str_int (sticker_id s) @ ''/''
           @ sticker_image s @ ''.png?size='' @ str_int sz)))
    \<and> (spec_format_allowed fo (emoji_animated e) \<longrightarrow>
       from_emoji st e fo sf =
         Inr (asset_init st (Some (''/emojis/'' @ str_int (emoji_id e) @ ''.''
           @ spec_format fo (emoji_animated e) sf))))
    \<and> from_avatar st \<lparr>user_id = 123, user_avatar = Some ''abc'',
          user_is_avatar_animated = False, user_default_avatar_url = d\<rparr> None ''webp'' 256
        = Inr (asset_init st (Some ''/avatars/123/abc.webp?size=256''))
    \<and> asset_str (asset_init st (Some ''/avatars/123/abc.webp?size=256''))
        = ''https://cdn.discordapp.com/avatars/123/abc.webp?size=256''
    \<and> from_emoji st \<lparr>emoji_id = 55, emoji_animated = True\<rparr> None ''png''
        = Inr (asset_init st (Some ''/emojis/55.gif''))"
proof -
  note sz = assms(1) and sf = assms(2)
  have avatar: "spec_format_allowed fo (user_is_avatar_animated u) \<and> user_avatar u = Some h \<longrightarrow>
       from_avatar st u fo sf sz =
         Inr (asset_init st (Some (''/avatars/'' @ str_int (user_id u) @ ''/'' @ h @ ''.''
           @ spec_format fo (user_is_avatar_animated u) sf @ ''?size='' @ str_int sz)))"
    using from_avatar_template[OF sz sf] by blast
  have icon: "object_icon ob = Some h \<longrightarrow>
       from_icon st ob path sf sz =
         Inr (asset_init st (Some (''/'' @ path @ ''-icons/'' @ str_int (object_id ob) @ ''/''
           @ h @ ''.'' @ sf @ ''?size='' @ str_int sz)))"
    using from_icon_template[OF sz sf] by blast
  have cover: "obj_cover_image co = Some h \<longrightarrow>
       from_cover_image st co sf sz =
         Inr (asset_init st (Some (''/app-assets/'' @ str_int (obj_id co) @ ''/store/'' @ h
           @ ''.'' @ sf @ ''?size='' @ str_int sz)))"
    using from_cover_image_template[OF sz sf] by blast
  have gicon: "spec_format_allowed fo (guild_is_icon_animated g) \<and> guild_icon g = Some h \<longrightarrow>
       from_guild_icon st g fo sf sz =
         Inr (asset_init st (Some (''/icons/'' @ str_int (guild_id g) @ ''/'' @ h @ ''.''
           @ spec_format fo (guild_is_icon_animated g) sf @ ''?size='' @ str_int sz)))"
    using from_guild_icon_template[OF sz sf] by blast
  have emo: "spec_format_allowed fo (emoji_animated e) \<longrightarrow>
       from_emoji st e fo sf =
         Inr (asset_init st (Some (''/emojis/'' @ str_int (emoji_id e) @ ''.''
           @ spec_format fo (emoji_animated e) sf)))"
    using from_emoji_template[OF sf] by blast
  show ?thesis
    using avatar icon cover gicon emo from_guild_image_template[OF sz sf]
      from_sticker_url_template[OF sz] avatar_example avatar_example_str emoji_example
    by blast
qed

theorem factory_url_templates_witness:
  "valid_icon_size 256 \<and> ''webp'' \<in> VALID_STATIC_FORMATS \<and> spec_format_allowed None False
   \<and> from_avatar None \<lparr>user_id = 123, user_avatar = Some ''abc'', user_is_avatar_animated = False,
        user_default_avatar_url = asset_init None None\<rparr> None ''webp'' 256
      = Inr (asset_init None (Some ''/avatars/123/abc.webp?size=256''))
   \<and> from_icon None \<lparr>object_id = 123, object_icon = Some ''abc''\<rparr> ''team'' ''webp'' 256
      = Inr (asset_init None (Some ''/team-icons/123/abc.webp?size=256''))
   \<and> from_cover_image None \<lparr>obj_id = 123, obj_cover_image = Some ''abc''\<rparr> ''webp'' 256
      = Inr (asset_init None (Some ''/app-assets/123/store/abc.webp?size=256''))
   \<and> from_guild_image None 123 (Some ''abc'') ''banners'' ''webp'' 256
      = Inr (asset_init None (Some ''/banners/123/abc.webp?size=256''))
   \<and> from_guild_icon None \<lparr>guild_id = 123, guild_icon = Some ''abc'', guild_is_icon_animated = False\<rparr>
        None ''webp'' 256
      = Inr (asset_init None (Some ''/icons/123/abc.webp?size=256''))
   \<and> from_sticker_url None \<lparr>sticker_id = 123, sticker_image = ''abc''\<rparr> 256
      = Inr (asset_init None (Some ''/stickers/123/abc.png?size=256''))
   \<and> from_emoji None \<lparr>emoji_id = 123, emoji_animated = False\<rparr> None ''webp''
      = Inr (asset_init None (Some ''/emojis/123.webp''))"
  using factory_url_templates [OF valid_icon_size_256 webp_static,
      where fo = None and h = "''abc''" and st = None and path = "''team''" and key = "''banners''"
        and i = 123
        and u = "\<lparr>user_id = 123, user_avatar = Some ''abc'', user_is_avatar_animated = False,
                   user_default_avatar_url = asset_init None None\<rparr>"
        and ob = "\<lparr>object_id = 123, object_icon = Some ''abc''\<rparr>"
        and co = "\<lparr>obj_id = 123, obj_cover_image = Some ''abc''\<rparr>"
        and g = "\<lparr>guild_id = 123, guild_icon = Some ''abc'', guild_is_icon_animated = False\<rparr>"
        and s = "\<lparr>sticker_id = 123, sticker_image = ''abc''\<rparr>"
        and e = "\<lparr>emoji_id = 123, emoji_animated = False\<rparr>"]
  by (simp add: valid_icon_size_256 webp_static spec_format_allowed_def spec_format_def
      str_int_123 str_int_256)

section \<open>Size validation and the missing image\<close>

lemma not_valid_icon_size_17: "\<not> valid_icon_size 17"
  by (simp add: valid_icon_size_def lessThan_nat_numeral lessThan_Suc)

lemma invalid_size_rejected:
  assumes "\<not> valid_icon_size sz"
  shows "from_avatar st u fo sf sz = Inl size_error"
    and "from_guild_image st i hash key fmt sz = Inl size_error"
    and "from_guild_icon st g fo sf sz = Inl size_error"
    and "from_sticker_url st s sz = Inl size_error"
    and "object_icon ob \<noteq> None \<Longrightarrow> from_icon st ob path fmt sz = Inl size_error"
    and "obj_cover_image co \<noteq> None \<Longrightarrow> from_cover_image st co fmt sz = Inl size_error"
  using assms
  by (auto simp: from_avatar_def from_guild_image_def from_guild_icon_def from_sticker_url_def
      from_icon_def from_cover_image_def)

text \<open>
  C2. Every size-taking factory should reject a size that is not a power of two in
  [16, 4096], whatever the other arguments and whether or not the source has an image.
  The avatar, guild-image, guild-icon and sticker factories do (\<open>invalid_size_rejected\<close>),
  and so do the icon and cover-image factories when the image is set. With no image set
  the icon and cover-image factories return before they look at the size: at size 17 they
  hand back an Asset without a URL, where their siblings raise.
\<close>

theorem from_icon_skips_size_check:
  "\<not> valid_icon_size 17
   \<and> from_icon None \<lparr>object_id = 1, object_icon = None\<rparr> ''team'' ''webp'' 17
       = Inr (asset_init None None)
   \<and> from_cover_image None \<lparr>obj_id = 1, obj_cover_image = None\<rparr> ''webp'' 17
       = Inr (asset_init None None)
   \<and> from_guild_image None 1 None ''banners'' ''webp'' 17 = Inl size_error
   \<and> from_guild_icon None \<lparr>guild_id = 1, guild_icon = None, guild_is_icon_animated = False\<rparr>
        None ''webp'' 17 = Inl size_error"
  by (simp add: not_valid_icon_size_17 from_icon_def from_cover_image_def from_guild_image_def
      from_guild_icon_def)

section \<open>The gif format\<close>

text \<open>
  C3. In the avatar, guild-icon and emoji factories a request for format \<open>gif\<close> on a
  source that is not animated fails with \<open>InvalidArgument\<close>, whatever the other arguments.
  On an animated source the same request, with the other arguments valid and the image
  set, succeeds, and the URL carries the format \<open>gif\<close>.
\<close>

theorem gif_needs_animated_source:
  "(\<not> user_is_avatar_animated u \<longrightarrow> is_InvalidArgument (from_avatar st u (Some ''gif'') sf sz))
   \<and> (\<not> guild_is_icon_animated g \<longrightarrow>
        is_InvalidArgument (from_guild_icon st g (Some ''gif'') sf sz))
   \<and> (\<not> emoji_animated e \<longrightarrow>
        from_emoji st e (Some ''gif'') sf
          = Inl (InvalidArgument ''non animated emoji's do not support gif format''))
   \<and> (user_is_avatar_animated u \<and> valid_icon_size sz \<and> sf \<in> VALID_STATIC_FORMATS
        \<and> user_avatar u = Some h \<longrightarrow>
        from_avatar st u (Some ''gif'') sf sz =
          Inr (asset_init st (Some (''/avatars/'' @ str_int (user_id u) @ ''/'' @ h
            @ ''.gif?size='' @ str_int sz))))
   \<and> (guild_is_icon_animated g \<and> valid_icon_size sz \<and> sf \<in> VALID_STATIC_FORMATS
        \<and> guild_icon g = Some h \<longrightarrow>
        from_guild_icon st g (Some ''gif'') sf sz =
          Inr (asset_init st (Some (''/icons/'' @ str_int (guild_id g) @ ''/'' @ h
            @ ''.gif?size='' @ str_int sz))))
   \<and> (emoji_animated e \<and> sf \<in> VALID_STATIC_FORMATS \<longrightarrow>
        from_emoji st e (Some ''gif'') sf =
          Inr (asset_init st (Some (''/emojis/'' @ str_int (emoji_id e) @ ''.gif''))))"
proof -
  have gif: "Some ''gif'' \<in> Some ` VALID_AVATAR_FORMATS"
    by (simp add: VALID_AVATAR_FORMATS_def)
  have a1: "\<not> user_is_avatar_animated u \<longrightarrow>
      is_InvalidArgument (from_avatar st u (Some ''gif'') sf sz)"
    using gif by (simp add: from_avatar_def size_error_def)
  have g1: "\<not> guild_is_icon_animated g \<longrightarrow>
      is_InvalidArgument (from_guild_icon st g (Some ''gif'') sf sz)"
    using gif by (simp add: from_guild_icon_def size_error_def)
  have e1: "\<not> emoji_animated e \<longrightarrow>
      from_emoji st e (Some ''gif'') sf
        = Inl (InvalidArgument ''non animated emoji's do not support gif format'')"
    using gif by (simp add: from_emoji_def)
  have a2: "user_is_avatar_animated u \<and> valid_icon_size sz \<and> sf \<in> VALID_STATIC_FORMATS
        \<and> user_avatar u = Some h \<longrightarrow>
        from_avatar st u (Some ''gif'') sf sz =
          Inr (asset_init st (Some (''/avatars/'' @ str_int (user_id u) @ ''/'' @ h
            @ ''.gif?size='' @ str_int sz)))"
    using gif by (simp add: from_avatar_def)
  have g2: "guild_is_icon_animated g \<and> valid_icon_size sz \<and> sf \<in> VALID_STATIC_FORMATS
        \<and> guild_icon g = Some h \<longrightarrow>
        from_guild_icon st g (Some ''gif'') sf sz =
          Inr (asset_init st (Some (''/icons/'' @ str_int (guild_id g) @ ''/'' @ h
            @ ''.gif?size='' @ str_int sz)))"
    using gif by (simp add: from_guild_icon_def)
  have e2: "emoji_animated e \<and> sf \<in> VALID_STATIC_FORMATS \<longrightarrow>
        from_emoji st e (Some ''gif'') sf =
          Inr (asset_init st (Some (''/emojis/'' @ str_int (emoji_id e) @ ''.gif'')))"
    using gif by (simp add: from_emoji_def)
  from a1 g1 e1 a2 g2 e2 show ?thesis by blast
qed

theorem gif_needs_animated_source_witness:
  "is_InvalidArgument (from_avatar None \<lparr>user_id = 123, user_avatar = Some ''abc'',
       user_is_avatar_animated = False, user_default_avatar_url = asset_init None None\<rparr>
       (Some ''gif'') ''webp'' 256)
   \<and> is_InvalidArgument (from_guild_icon None \<lparr>guild_id = 123, guild_icon = Some ''abc'',
       guild_is_icon_animated = False\<rparr> (Some ''gif'') ''webp'' 256)
   \<and> from_emoji None \<lparr>emoji_id = 55, emoji_animated = False\<rparr> (Some ''gif'') ''webp''
       = Inl (InvalidArgument ''non animated emoji's do not support gif format'')
   \<and> from_avatar None \<lparr>user_id = 123, user_avatar = Some ''a_abc'',
       user_is_avatar_animated = True, user_default_avatar_url = asset_init None None\<rparr>
       (Some ''gif'') ''webp'' 256
       = Inr (asset_init None (Some ''/avatars/123/a_abc.gif?size=256''))
   \<and> from_guild_icon None \<lparr>guild_id = 123, guild_icon = Some ''a_abc'',
       guild_is_icon_animated = True\<rparr> (Some ''gif'') ''webp'' 256
       = Inr (asset_init None (Some ''/icons/123/a_abc.gif?size=256''))
   \<and> from_emoji None \<lparr>emoji_id = 55, emoji_animated = True\<rparr> (Some ''gif'') ''webp''
       = Inr (asset_init None (Some ''/emojis/55.gif''))"
  using
    gif_needs_animated_source [where st = None and sf = "''webp''" and sz = 256
      and u = "\<lparr>user_id = 123, user_avatar = Some ''abc'', user_is_avatar_animated = False,
                 user_default_avatar_url = asset_init None None\<rparr>"
      and g = "\<lparr>guild_id = 123, guild_icon = Some ''abc'', guild_is_icon_animated = False\<rparr>"
      and e = "\<lparr>emoji_id = 55, emoji_animated = False\<rparr>"]
    gif_needs_animated_source [where st = None and sf = "''webp''" and sz = 256
      and h = "''a_abc''"
      and u = "\<lparr>user_id = 123, user_avatar = Some ''a_abc'', user_is_avatar_animated = True,
                 user_default_avatar_url = asset_init None None\<rparr>"
      and g = "\<lparr>guild_id = 123, guild_icon = Some ''a_abc'', guild_is_icon_animated = True\<rparr>"
      and e = "\<lparr>emoji_id = 55, emoji_animated = True\<rparr>"]
  by (simp add: valid_icon_size_256 webp_static str_int_123 str_int_256 str_int_55)

text \<open>
  C7. When the source has no image set, the icon and cover-image factories return an
  Asset without a URL path, and so do the guild-image and guild-icon factories once their
  arguments have passed validation; such an Asset is falsy. The avatar factory returns
  the user's default avatar URL instead.
\<close>

theorem missing_image_gives_empty_asset:
  "(object_icon ob = None \<longrightarrow> from_icon st ob path fmt sz = Inr (asset_init st None))
   \<and> (obj_cover_image co = None \<longrightarrow> from_cover_image st co fmt sz = Inr (asset_init st None))
   \<and> (valid_icon_size sz \<and> fmt \<in> VALID_STATIC_FORMATS \<longrightarrow>
        from_guild_image st i None key fmt sz = Inr (asset_init st None))
   \<and> (valid_icon_size sz \<and> sf \<in> VALID_STATIC_FORMATS
        \<and> spec_format_allowed fo (guild_is_icon_animated g) \<and> guild_icon g = None \<longrightarrow>
        from_guild_icon st g fo sf sz = Inr (asset_init st None))
   \<and> (valid_icon_size sz \<and> sf \<in> VALID_STATIC_FORMATS
        \<and> spec_format_allowed fo (user_is_avatar_animated u) \<and> user_avatar u = None \<longrightarrow>
        from_avatar st u fo sf sz = Inr (user_default_avatar_url u))
   \<and> url (asset_init st None) = None
   \<and> \<not> asset_bool (asset_init st None)"
proof -
  have icon: "object_icon ob = None \<longrightarrow> from_icon st ob path fmt sz = Inr (asset_init st None)"
    by (simp add: from_icon_def)
  have cover: "obj_cover_image co = None \<longrightarrow>
      from_cover_image st co fmt sz = Inr (asset_init st None)"
    by (simp add: from_cover_image_def)
  have gimage: "valid_icon_size sz \<and> fmt \<in> VALID_STATIC_FORMATS \<longrightarrow>
      from_guild_image st i None key fmt sz = Inr (asset_init st None)"
    by (simp add: from_guild_image_def)
  have gicon: "valid_icon_size sz \<and> sf \<in> VALID_STATIC_FORMATS
        \<and> spec_format_allowed fo (guild_is_icon_animated g) \<and> guild_icon g = None \<longrightarrow>
        from_guild_icon st g fo sf sz = Inr (asset_init st None)"
    using allowed_avatar_format[of fo "guild_is_icon_animated g"]
    by (auto simp: from_guild_icon_def)
  have avatar: "valid_icon_size sz \<and> sf \<in> VALID_STATIC_FORMATS
        \<and> spec_format_allowed fo (user_is_avatar_animated u) \<and> user_avatar u = None \<longrightarrow>
        from_avatar st u fo sf sz = Inr (user_default_avatar_url u)"
    using allowed_avatar_format[of fo "user_is_avatar_animated u"]
    by (auto simp: from_avatar_def)
  have falsy: "url (asset_init st None) = None \<and> \<not> asset_bool (asset_init st None)"
    by (simp add: asset_init_def asset_bool_def)
  from icon cover gimage gicon avatar falsy show ?thesis by blast
qed

theorem missing_image_gives_empty_asset_witness:
  "from_icon None \<lparr>object_id = 1, object_icon = None\<rparr> ''team'' ''webp'' 256
      = Inr (asset_init None None)
   \<and> from_cover_image None \<lparr>obj_id = 1, obj_cover_image = None\<rparr> ''webp'' 256
      = Inr (asset_init None None)
   \<and> from_guild_image None 1 None ''banners'' ''webp'' 256 = Inr (asset_init None None)
   \<and> from_guild_icon None \<lparr>guild_id = 1, guild_icon = None, guild_is_icon_animated = False\<rparr>
        None ''webp'' 256 = Inr (asset_init None None)
   \<and> from_avatar None \<lparr>user_id = 1, user_avatar = None, user_is_avatar_animated = False,
        user_default_avatar_url = asset_init None (Some ''/embed/avatars/1.png'')\<rparr>
        None ''webp'' 256 = Inr (asset_init None (Some ''/embed/avatars/1.png''))
   \<and> \<not> asset_bool (asset_init None None)"
  using missing_image_gives_empty_asset [where st = None and sz = 256 and fmt = "''webp''"
      and sf = "''webp''" and fo = None and path = "''team''" and key = "''banners''" and i = 1
      and ob = "\<lparr>object_id = 1, object_icon = None\<rparr>"
      and co = "\<lparr>obj_id = 1, obj_cover_image = None\<rparr>"
      and g = "\<lparr>guild_id = 1, guild_icon = None, guild_is_icon_animated = False\<rparr>"
      and u = "\<lparr>user_id = 1, user_avatar = None, user_is_avatar_animated = False,
        user_default_avatar_url = asset_init None (Some ''/embed/avatars/1.png'')\<rparr>"]
  by (simp add: valid_icon_size_256 webp_static spec_format_allowed_def)

section \<open>Equality, hash and truthiness\<close>

text \<open>
  C4. Two Assets are equal exactly when their URL paths are equal; the connection state
  takes no part in the comparison; and two Assets with equal URL paths have equal hash
  values, whatever the builtin hash function is.
\<close>

theorem asset_eq_iff_url:
  "asset_eq a (PyAsset b) = (url a = url b)
   \<and> asset_eq (a\<lparr>state := s\<rparr>) (PyAsset (b\<lparr>state := t\<rparr>)) = asset_eq a (PyAsset b)
   \<and> (url a = url b \<longrightarrow> asset_hash builtin_hash a = asset_hash builtin_hash b)"
  by (simp add: asset_hash_def)

theorem asset_eq_iff_url_witness:
  "asset_eq (asset_init None (Some ''/emojis/55.gif''))
      (PyAsset (asset_init (Some \<lparr>http = \<lparr>get_from_cdn = (\<lambda>u. Inl NotFound)\<rparr>\<rparr>)
         (Some ''/emojis/55.gif'')))
   \<and> asset_hash (\<lambda>u. case u of None \<Rightarrow> 0 | Some p \<Rightarrow> int (length p))
        (asset_init None (Some ''/emojis/55.gif''))
     = asset_hash (\<lambda>u. case u of None \<Rightarrow> 0 | Some p \<Rightarrow> int (length p))
        (asset_init (Some \<lparr>http = \<lparr>get_from_cdn = (\<lambda>u. Inl NotFound)\<rparr>\<rparr>)
           (Some ''/emojis/55.gif''))
   \<and> \<not> asset_eq (asset_init None (Some ''/emojis/55.gif''))
        (PyAsset (asset_init None (Some ''/emojis/55.png'')))"
  using asset_eq_iff_url [where a = "asset_init None (Some ''/emojis/55.gif'')"
      and b = "asset_init (Some \<lparr>http = \<lparr>get_from_cdn = (\<lambda>u. Inl NotFound)\<rparr>\<rparr>)
                 (Some ''/emojis/55.gif'')"
      and builtin_hash = "\<lambda>u. case u of None \<Rightarrow> 0 | Some p \<Rightarrow> int (length p)"]
    asset_eq_iff_url [where a = "asset_init None (Some ''/emojis/55.gif'')"
      and b = "asset_init None (Some ''/emojis/55.png'')"]
  by (simp add: asset_init_def)

text \<open>
  C10. Compared with a value that is not an Asset, an Asset is unequal: \<open>==\<close> gives
  False and \<open>!=\<close> gives True. Both are total functions into the booleans, so neither
  raises nor hands the comparison to the other operand, and \<open>!=\<close> is always the negation
  of \<open>==\<close>.
\<close>

theorem asset_ne_is_negation:
  "(\<not> isinstance_Asset x \<longrightarrow> asset_eq a x = False \<and> asset_ne a x = True)
   \<and> asset_ne a y = (\<not> asset_eq a y)"
  by (cases x) (simp_all add: asset_ne_def)

theorem asset_ne_is_negation_witness:
  "\<not> isinstance_Asset (PyStr ''/emojis/55.gif'')
   \<and> asset_eq (asset_init None (Some ''/emojis/55.gif'')) (PyStr ''/emojis/55.gif'') = False
   \<and> asset_ne (asset_init None (Some ''/emojis/55.gif'')) (PyStr ''/emojis/55.gif'') = True
   \<and> asset_ne (asset_init None None) PyNone = True"
  using asset_ne_is_negation [where a = "asset_init None (Some ''/emojis/55.gif'')"
      and x = "PyStr ''/emojis/55.gif''" and y = "PyStr ''/emojis/55.gif''"]
    asset_ne_is_negation [where a = "asset_init None None" and x = PyNone and y = PyNone]
  by simp

text \<open>
  C5. Boolean presence should be true exactly when the URL path is non-empty. An Asset
  built with the empty string as its URL path has an empty path: \<^verbatim>\<open>__len__\<close> gives 0
  for it and \<^verbatim>\<open>read\<close> refuses it with "no URL provided", both testing the truth value
  of the path. \<^verbatim>\<open>__bool__\<close> tests \<^verbatim>\<open>is not None\<close> instead and calls the same Asset
  present, and \<^verbatim>\<open>__str__\<close> gives the bare base origin.
\<close>

theorem empty_url_is_truthy:
  "url (asset_init None (Some '''')) = Some ''''
   \<and> \<not> truthy (url (asset_init None (Some '''')))
   \<and> asset_bool (asset_init None (Some ''''))
   \<and> asset_len (asset_init None (Some '''')) = 0
   \<and> asset_str (asset_init None (Some '''')) = ''https://cdn.discordapp.com''
   \<and> fst (read (asset_init None (Some ''''))
        \<lparr>requests = [], files = Map.empty, opened = [], handles = [],
          can_open = (\<lambda>p. p \<noteq> []), can_write = (\<lambda>p. p \<noteq> ''full'')\<rparr>)
       = Inl (DiscordException ''Invalid asset (no URL provided)'')"
  by (simp add: asset_init_def asset_bool_def asset_len_def asset_str_def BASE_def read_def
      no_url_error_def)

text \<open>
  The other two clauses hold for every Asset: with the URL path absent, string conversion
  gives the empty string and the length is 0; with it present, string conversion gives
  the base origin followed by the URL path. Boolean presence is the test \<open>url a \<noteq> None\<close>.
\<close>

lemma asset_presence:
  "asset_bool a = (url a \<noteq> None)
   \<and> (url a = None \<longrightarrow> asset_str a = '''' \<and> asset_len a = 0)
   \<and> (url a = Some p \<longrightarrow> asset_str a = ''https://cdn.discordapp.com'' @ p)"
  by (simp add: asset_bool_def asset_str_def asset_len_def BASE_def)

section \<open>Fetching\<close>

lemma read_without_url: "\<not> truthy (url a) \<Longrightarrow> read a w = (Inl no_url_error, w)"
  by (simp add: read_def)

lemma read_without_state:
  "truthy (url a) \<Longrightarrow> state a = None \<Longrightarrow> read a w = (Inl no_state_error, w)"
  by (simp add: read_def)

lemma read_fetches:
  "url a = Some p \<Longrightarrow> p \<noteq> [] \<Longrightarrow> state a = Some s \<Longrightarrow>
     read a w = (get_from_cdn (http s) (BASE @ p), w\<lparr>requests := requests w @ [BASE @ p]\<rparr>)"
  by (simp add: read_def)

lemma read_keeps_files:
  "files (snd (read a w)) = files w \<and> opened (snd (read a w)) = opened w
     \<and> handles (snd (read a w)) = handles w"
  by (simp add: read_def split: option.splits)

text \<open>
  C6. When the URL path is absent (\<^verbatim>\<open>None\<close> or empty) or the connection state is
  absent, \<^verbatim>\<open>read\<close> fails with a \<open>DiscordException\<close> and leaves the world as it was: no
  request has been sent. The message tells the two causes apart, the missing URL being
  reported first. A request is sent only when both are present, and then it is the one
  request for the base origin followed by the URL path, whose outcome \<^verbatim>\<open>read\<close> returns.
\<close>

theorem read_needs_url_and_state:
  "(\<not> truthy (url a) \<or> state a = None \<longrightarrow>
      is_DiscordException (fst (read a w)) \<and> snd (read a w) = w)
   \<and> (\<not> truthy (url a) \<longrightarrow>
      fst (read a w) = Inl (DiscordException ''Invalid asset (no URL provided)''))
   \<and> (truthy (url a) \<and> state a = None \<longrightarrow>
      fst (read a w) = Inl (DiscordException ''Invalid state (no ConnectionState provided)''))
   \<and> no_url_error \<noteq> no_state_error
   \<and> (requests (snd (read a w)) \<noteq> requests w \<longrightarrow> truthy (url a) \<and> state a \<noteq> None)
   \<and> (url a = Some p \<and> p \<noteq> [] \<and> state a = Some s \<longrightarrow>
      read a w = (get_from_cdn (http s) (BASE @ p), w\<lparr>requests := requests w @ [BASE @ p]\<rparr>))"
proof -
  have kind: "\<not> truthy (url a) \<or> state a = None \<longrightarrow>
      is_DiscordException (fst (read a w)) \<and> snd (read a w) = w"
    using read_without_url[of a w] read_without_state[of a w]
    by (cases "truthy (url a)") (auto simp: no_url_error_def no_state_error_def)
  have nourl: "\<not> truthy (url a) \<longrightarrow>
      fst (read a w) = Inl (DiscordException ''Invalid asset (no URL provided)'')"
    using read_without_url[of a w] by (simp add: no_url_error_def)
  have nostate: "truthy (url a) \<and> state a = None \<longrightarrow>
      fst (read a w) = Inl (DiscordException ''Invalid state (no ConnectionState provided)'')"
    using read_without_state[of a w] by (simp add: no_state_error_def)
  have differ: "no_url_error \<noteq> no_state_error"
    by (simp add: no_url_error_def no_state_error_def)
  have only: "requests (snd (read a w)) \<noteq> requests w \<longrightarrow> truthy (url a) \<and> state a \<noteq> None"
    using kind by auto
  have fetch: "url a = Some p \<and> p \<noteq> [] \<and> state a = Some s \<longrightarrow>
      read a w = (get_from_cdn (http s) (BASE @ p), w\<lparr>requests := requests w @ [BASE @ p]\<rparr>)"
    using read_fetches[of a p s w] by blast
  from kind nourl nostate differ only fetch show ?thesis by blast
qed

theorem read_needs_url_and_state_witness:
  "is_DiscordException (fst (read (asset_init None None)
       \<lparr>requests = [], files = Map.empty, opened = [], handles = [],
          can_open = (\<lambda>p. p \<noteq> []), can_write = (\<lambda>p. p \<noteq> ''full'')\<rparr>))
   \<and> snd (read (asset_init None None)
       \<lparr>requests = [], files = Map.empty, opened = [], handles = [],
          can_open = (\<lambda>p. p \<noteq> []), can_write = (\<lambda>p. p \<noteq> ''full'')\<rparr>)
       = \<lparr>requests = [], files = Map.empty, opened = [], handles = [],
          can_open = (\<lambda>p. p \<noteq> []), can_write = (\<lambda>p. p \<noteq> ''full'')\<rparr>
   \<and> fst (read (asset_init None None)
       \<lparr>requests = [], files = Map.empty, opened = [], handles = [],
          can_open = (\<lambda>p. p \<noteq> []), can_write = (\<lambda>p. p \<noteq> ''full'')\<rparr>)
       = Inl (DiscordException ''Invalid asset (no URL provided)'')
   \<and> fst (read (asset_init None (Some ''/emojis/55.gif''))
       \<lparr>requests = [], files = Map.empty, opened = [], handles = [],
          can_open = (\<lambda>p. p \<noteq> []), can_write = (\<lambda>p. p \<noteq> ''full'')\<rparr>)
       = Inl (DiscordException ''Invalid state (no ConnectionState provided)'')
   \<and> read (asset_init (Some \<lparr>http = \<lparr>get_from_cdn = (\<lambda>u. Inr [1, 2, 3])\<rparr>\<rparr>)
          (Some ''/emojis/55.gif''))
       \<lparr>requests = [], files = Map.empty, opened = [], handles = [],
          can_open = (\<lambda>p. p \<noteq> []), can_write = (\<lambda>p. p \<noteq> ''full'')\<rparr>
       = (Inr [1, 2, 3],
          \<lparr>requests = [''https://cdn.discordapp.com/emojis/55.gif''], files = Map.empty,
          opened = [], handles = [],
          can_open = (\<lambda>p. p \<noteq> []), can_write = (\<lambda>p. p \<noteq> ''full'')\<rparr>)"
  using
    read_needs_url_and_state [where a = "asset_init None None"
      and w = "\<lparr>requests = [], files = Map.empty, opened = [], handles = [],
          can_open = (\<lambda>p. p \<noteq> []), can_write = (\<lambda>p. p \<noteq> ''full'')\<rparr>"]
    read_needs_url_and_state [where a = "asset_init None (Some ''/emojis/55.gif'')"
      and w = "\<lparr>requests = [], files = Map.empty, opened = [], handles = [],
          can_open = (\<lambda>p. p \<noteq> []), can_write = (\<lambda>p. p \<noteq> ''full'')\<rparr>"]
    read_needs_url_and_state [where
      a = "(asset_init (Some \<lparr>http = \<lparr>get_from_cdn = (\<lambda>u. Inr [1, 2, 3])\<rparr>\<rparr>)
          (Some ''/emojis/55.gif''))"
      and p = "''/emojis/55.gif''"
      and s = "\<lparr>http = \<lparr>get_from_cdn = (\<lambda>u. Inr [1, 2, 3])\<rparr>\<rparr>"
      and w = "\<lparr>requests = [], files = Map.empty, opened = [], handles = [],
          can_open = (\<lambda>p. p \<noteq> []), can_write = (\<lambda>p. p \<noteq> ''full'')\<rparr>"]
  by (simp add: asset_init_def BASE_def)


section \<open>Saving\<close>

lemma save_read_failed: "read a w = (Inl e, wr) \<Longrightarrow> save a dest sb w = (Inl e, dest, wr)"
  by (simp add: save_def)

lemma save_write_logged:
  "read a w = (Inr data, wr) \<Longrightarrow> writable f \<Longrightarrow>
     fp_writes (fst (snd (save a (IOBase f) sb w))) = writes f @ [data]
     \<and> snd (snd (save a (IOBase f) sb w)) = wr"
  by (cases "write_outcome f data") (simp_all add: save_def io_write_def io_seek_def Let_def)

lemma save_write_returned:
  "read a w = (Inr data, wr) \<Longrightarrow> writable f \<Longrightarrow> write_outcome f data = Inr n \<Longrightarrow>
     sb \<longrightarrow> seekable f \<Longrightarrow>
     fst (save a (IOBase f) sb w) = Inr n
     \<and> fp_received (fst (snd (save a (IOBase f) sb w))) = received f @ take n data"
  by (simp add: save_def io_write_def io_seek_def)

lemma save_write_raised:
  "read a w = (Inr data, wr) \<Longrightarrow> writable f \<Longrightarrow> write_outcome f data = Inl e \<Longrightarrow>
     fst (save a (IOBase f) sb w) = Inl e
     \<and> fp_received (fst (snd (save a (IOBase f) sb w))) = received f"
  by (simp add: save_def io_write_def)

lemma save_seek_raised:
  "read a w = (Inr data, wr) \<Longrightarrow> writable f \<Longrightarrow> write_outcome f data = Inr n \<Longrightarrow>
     sb \<Longrightarrow> \<not> seekable f \<Longrightarrow>
     fst (save a (IOBase f) sb w) = Inl UnsupportedOperation
     \<and> fp_received (fst (snd (save a (IOBase f) sb w))) = received f @ take n data"
  by (simp add: save_def io_write_def io_seek_def)

lemma save_falls_through:
  "read a w = (Inr data, wr) \<Longrightarrow> \<not> writable f \<Longrightarrow>
     save a (IOBase f) sb w = save_to_path (IOBase f) data wr"
  by (simp add: save_def)

lemma save_path:
  "read a w = (Inr data, wr) \<Longrightarrow> save a (PathLike p) sb w = save_to_path (PathLike p) data wr"
  by (simp add: save_def)

lemma save_to_path_written:
  "can_open w p \<Longrightarrow> can_write w p \<Longrightarrow>
     save_to_path (PathLike p) data w =
       (Inr (length data), PathLike p,
        w\<lparr>opened := opened w @ [PathLike p], files := (files w)(p \<mapsto> data),
          handles := handles w\<rparr>)"
  by (simp add: save_to_path_def py_open_wb_def file_write_def file_close_def)

lemma save_to_path_not_opened:
  "\<not> can_open w p \<Longrightarrow>
     save_to_path (PathLike p) data w = (Inl OSError, PathLike p, w\<lparr>opened := opened w @ [PathLike p]\<rparr>)"
  by (simp add: save_to_path_def py_open_wb_def)

lemma save_to_path_not_written:
  "can_open w p \<Longrightarrow> \<not> can_write w p \<Longrightarrow>
     save_to_path (PathLike p) data w =
       (Inl OSError, PathLike p,
        w\<lparr>opened := opened w @ [PathLike p], files := (files w)(p \<mapsto> []),
          handles := handles w\<rparr>)"
  by (simp add: save_to_path_def py_open_wb_def file_write_def file_close_def)

lemma save_to_path_IOBase:
  "save_to_path (IOBase f) data w = (Inl TypeError, IOBase f, w\<lparr>opened := opened w @ [IOBase f]\<rparr>)"
  by (simp add: save_to_path_def py_open_wb_def)

lemma save_to_path_opened:
  "opened (snd (snd (save_to_path dest data w))) = opened w @ [dest]"
  by (cases dest)
    (simp_all add: save_to_path_def py_open_wb_def file_write_def file_close_def Let_def)

text \<open>
  C8, as stated: whenever \<^verbatim>\<open>save\<close> succeeds, the bytes written to the destination are
  exactly the bytes \<^verbatim>\<open>read\<close> returned. \<^verbatim>\<open>save\<close> calls \<^verbatim>\<open>write\<close> once and returns what it
  returned. On a writable sink that takes one byte per call, \<^verbatim>\<open>read\<close> returns three bytes,
  \<^verbatim>\<open>save\<close> succeeds with 1, and the sink holds the first byte only.
\<close>

theorem save_short_write:
  "fst (read (asset_init (Some \<lparr>http = \<lparr>get_from_cdn = (\<lambda>u. Inr [1, 2, 3])\<rparr>\<rparr>)
          (Some ''/emojis/55.gif''))
        \<lparr>requests = [], files = Map.empty, opened = [], handles = [],
          can_open = (\<lambda>p. p \<noteq> []), can_write = (\<lambda>p. p \<noteq> ''full'')\<rparr>) = Inr [1, 2, 3]
   \<and> fst (save (asset_init (Some \<lparr>http = \<lparr>get_from_cdn = (\<lambda>u. Inr [1, 2, 3])\<rparr>\<rparr>)
          (Some ''/emojis/55.gif''))
        (IOBase \<lparr>writable = True, seekable = True, write_outcome = (\<lambda>b. Inr (min 1 (length b))),
          writes = [], received = [], position = 0\<rparr>) False
        \<lparr>requests = [], files = Map.empty, opened = [], handles = [],
          can_open = (\<lambda>p. p \<noteq> []), can_write = (\<lambda>p. p \<noteq> ''full'')\<rparr>) = Inr 1
   \<and> fp_received (fst (snd (save (asset_init (Some \<lparr>http = \<lparr>get_from_cdn = (\<lambda>u. Inr [1, 2, 3])\<rparr>\<rparr>)
          (Some ''/emojis/55.gif''))
        (IOBase \<lparr>writable = True, seekable = True, write_outcome = (\<lambda>b. Inr (min 1 (length b))),
          writes = [], received = [], position = 0\<rparr>) False
        \<lparr>requests = [], files = Map.empty, opened = [], handles = [],
          can_open = (\<lambda>p. p \<noteq> []), can_write = (\<lambda>p. p \<noteq> ''full'')\<rparr>))) = [1]
   \<and> fp_received (fst (snd (save (asset_init (Some \<lparr>http = \<lparr>get_from_cdn = (\<lambda>u. Inr [1, 2, 3])\<rparr>\<rparr>)
          (Some ''/emojis/55.gif''))
        (IOBase \<lparr>writable = True, seekable = True, write_outcome = (\<lambda>b. Inr (min 1 (length b))),
          writes = [], received = [], position = 0\<rparr>) False
        \<lparr>requests = [], files = Map.empty, opened = [], handles = [],
          can_open = (\<lambda>p. p \<noteq> []), can_write = (\<lambda>p. p \<noteq> ''full'')\<rparr>))) \<noteq> [1, 2, 3]"
  by (simp add: save_def read_def asset_init_def BASE_def io_write_def)

text \<open>
  C8, amended. \<^verbatim>\<open>save\<close> calls \<^verbatim>\<open>read\<close> first. When \<^verbatim>\<open>read\<close> fails, \<^verbatim>\<open>save\<close> fails with the
  same error, the destination is as it was and neither the file system nor the log of
  opened files has changed. When \<^verbatim>\<open>read\<close> returns bytes, a writable sink is handed exactly
  those bytes in a single \<^verbatim>\<open>write\<close>, and nothing else in the world changes. If that
  \<^verbatim>\<open>write\<close> returns \<open>n\<close> and the reposition, when asked for, is possible, \<^verbatim>\<open>save\<close> returns
  \<open>n\<close>, the number of bytes the sink took, and the sink has gained the first \<open>n\<close> bytes
  of the data: all of them when \<open>n\<close> is their length. If the \<^verbatim>\<open>write\<close> raises, \<^verbatim>\<open>save\<close>
  fails with that error and the sink has gained nothing. A path that can be opened and
  written ends up holding exactly the bytes of \<^verbatim>\<open>read\<close>, its handle closed again, and
  their number is returned; a path that cannot be opened makes \<^verbatim>\<open>save\<close> fail with the
  files untouched. A sink that cannot seek, asked to reposition, makes \<^verbatim>\<open>save\<close> fail after
  the write; a file that refuses the write makes \<^verbatim>\<open>save\<close> fail with the handle closed.
\<close>

theorem save_hands_read_bytes_to_write:
  "(read a w = (Inl e, wr) \<longrightarrow>
      save a dest sb w = (Inl e, dest, wr)
      \<and> files wr = files w \<and> opened wr = opened w \<and> handles wr = handles w)
   \<and> (read a w = (Inr data, wr) \<and> writable f \<longrightarrow>
      fp_writes (fst (snd (save a (IOBase f) sb w))) = writes f @ [data]
      \<and> snd (snd (save a (IOBase f) sb w)) = wr)
   \<and> (read a w = (Inr data, wr) \<and> writable f \<and> write_outcome f data = Inr n
        \<and> (sb \<longrightarrow> seekable f) \<longrightarrow>
      fst (save a (IOBase f) sb w) = Inr n
      \<and> fp_received (fst (snd (save a (IOBase f) sb w))) = received f @ take n data
      \<and> (n = length data \<longrightarrow>
          fp_received (fst (snd (save a (IOBase f) sb w))) = received f @ data))
   \<and> (read a w = (Inr data, wr) \<and> writable f \<and> write_outcome f data = Inl e \<longrightarrow>
      fst (save a (IOBase f) sb w) = Inl e
      \<and> fp_received (fst (snd (save a (IOBase f) sb w))) = received f)
   \<and> (read a w = (Inr data, wr) \<and> can_open wr p \<and> can_write wr p \<longrightarrow>
      fst (save a (PathLike p) sb w) = Inr (length data)
      \<and> fst (snd (save a (PathLike p) sb w)) = PathLike p
      \<and> files (snd (snd (save a (PathLike p) sb w))) = (files wr)(p \<mapsto> data)
      \<and> handles (snd (snd (save a (PathLike p) sb w))) = handles wr)
   \<and> (read a w = (Inr data, wr) \<and> \<not> can_open wr p \<longrightarrow>
      fst (save a (PathLike p) sb w) = Inl OSError
      \<and> files (snd (snd (save a (PathLike p) sb w))) = files wr)
   \<and> (read a w = (Inr data, wr) \<and> writable f \<and> write_outcome f data = Inr n
        \<and> sb \<and> \<not> seekable f \<longrightarrow>
      fst (save a (IOBase f) sb w) = Inl UnsupportedOperation
      \<and> fp_received (fst (snd (save a (IOBase f) sb w))) = received f @ take n data)
   \<and> (read a w = (Inr data, wr) \<and> can_open wr p \<and> \<not> can_write wr p \<longrightarrow>
      fst (save a (PathLike p) sb w) = Inl OSError
      \<and> handles (snd (snd (save a (PathLike p) sb w))) = handles wr)"
proof -
  have failed: "read a w = (Inl e, wr) \<longrightarrow>
      save a dest sb w = (Inl e, dest, wr)
      \<and> files wr = files w \<and> opened wr = opened w \<and> handles wr = handles w"
    using save_read_failed[of a w e wr dest sb] read_keeps_files[of a w] by auto
  have handed: "read a w = (Inr data, wr) \<and> writable f \<longrightarrow>
      fp_writes (fst (snd (save a (IOBase f) sb w))) = writes f @ [data]
      \<and> snd (snd (save a (IOBase f) sb w)) = wr"
    using save_write_logged[of a w data wr f sb] by blast
  have returned: "read a w = (Inr data, wr) \<and> writable f \<and> write_outcome f data = Inr n
        \<and> (sb \<longrightarrow> seekable f) \<longrightarrow>
      fst (save a (IOBase f) sb w) = Inr n
      \<and> fp_received (fst (snd (save a (IOBase f) sb w))) = received f @ take n data
      \<and> (n = length data \<longrightarrow>
          fp_received (fst (snd (save a (IOBase f) sb w))) = received f @ data)"
    using save_write_returned[of a w data wr f n sb] by auto
  have raised: "read a w = (Inr data, wr) \<and> writable f \<and> write_outcome f data = Inl e \<longrightarrow>
      fst (save a (IOBase f) sb w) = Inl e
      \<and> fp_received (fst (snd (save a (IOBase f) sb w))) = received f"
    using save_write_raised[of a w data wr f e sb] by blast
  have path: "read a w = (Inr data, wr) \<and> can_open wr p \<and> can_write wr p \<longrightarrow>
      fst (save a (PathLike p) sb w) = Inr (length data)
      \<and> fst (snd (save a (PathLike p) sb w)) = PathLike p
      \<and> files (snd (snd (save a (PathLike p) sb w))) = (files wr)(p \<mapsto> data)
      \<and> handles (snd (snd (save a (PathLike p) sb w))) = handles wr"
    using save_path[of a w data wr p sb] by (simp add: save_to_path_written)
  have closed: "read a w = (Inr data, wr) \<and> \<not> can_open wr p \<longrightarrow>
      fst (save a (PathLike p) sb w) = Inl OSError
      \<and> files (snd (snd (save a (PathLike p) sb w))) = files wr"
    using save_path[of a w data wr p sb] by (simp add: save_to_path_not_opened)
  have unseekable: "read a w = (Inr data, wr) \<and> writable f \<and> write_outcome f data = Inr n
        \<and> sb \<and> \<not> seekable f \<longrightarrow>
      fst (save a (IOBase f) sb w) = Inl UnsupportedOperation
      \<and> fp_received (fst (snd (save a (IOBase f) sb w))) = received f @ take n data"
    using save_seek_raised[of a w data wr f n sb] by blast
  have refused: "read a w = (Inr data, wr) \<and> can_open wr p \<and> \<not> can_write wr p \<longrightarrow>
      fst (save a (PathLike p) sb w) = Inl OSError
      \<and> handles (snd (snd (save a (PathLike p) sb w))) = handles wr"
    using save_path[of a w data wr p sb] by (simp add: save_to_path_not_written)
  from failed handed returned raised path closed unseekable refused show ?thesis by blast
qed


theorem save_hands_read_bytes_to_write_witness:
  "save (asset_init None None) (PathLike ''out.gif'') True
       \<lparr>requests = [], files = Map.empty, opened = [], handles = [],
          can_open = (\<lambda>p. p \<noteq> []), can_write = (\<lambda>p. p \<noteq> ''full'')\<rparr>
     = (Inl (DiscordException ''Invalid asset (no URL provided)''), PathLike ''out.gif'',
        \<lparr>requests = [], files = Map.empty, opened = [], handles = [],
          can_open = (\<lambda>p. p \<noteq> []), can_write = (\<lambda>p. p \<noteq> ''full'')\<rparr>)
   \<and> fst (save (asset_init (Some \<lparr>http = \<lparr>get_from_cdn = (\<lambda>u. Inr [1, 2, 3])\<rparr>\<rparr>)
          (Some ''/emojis/55.gif''))
        (IOBase \<lparr>writable = True, seekable = True, write_outcome = (\<lambda>b. Inr (length b)),
          writes = [], received = [], position = 0\<rparr>) True
        \<lparr>requests = [], files = Map.empty, opened = [], handles = [],
          can_open = (\<lambda>p. p \<noteq> []), can_write = (\<lambda>p. p \<noteq> ''full'')\<rparr>) = Inr 3
   \<and> fp_writes (fst (snd (save (asset_init (Some \<lparr>http = \<lparr>get_from_cdn = (\<lambda>u. Inr [1, 2, 3])\<rparr>\<rparr>)
          (Some ''/emojis/55.gif''))
        (IOBase \<lparr>writable = True, seekable = True, write_outcome = (\<lambda>b. Inr (length b)),
          writes = [], received = [], position = 0\<rparr>) True
        \<lparr>requests = [], files = Map.empty, opened = [], handles = [],
          can_open = (\<lambda>p. p \<noteq> []), can_write = (\<lambda>p. p \<noteq> ''full'')\<rparr>))) = [[1, 2, 3]]
   \<and> fp_received (fst (snd (save (asset_init (Some \<lparr>http = \<lparr>get_from_cdn = (\<lambda>u. Inr [1, 2, 3])\<rparr>\<rparr>)
          (Some ''/emojis/55.gif''))
        (IOBase \<lparr>writable = True, seekable = True, write_outcome = (\<lambda>b. Inr (length b)),
          writes = [], received = [], position = 0\<rparr>) True
        \<lparr>requests = [], files = Map.empty, opened = [], handles = [],
          can_open = (\<lambda>p. p \<noteq> []), can_write = (\<lambda>p. p \<noteq> ''full'')\<rparr>))) = [1, 2, 3]
   \<and> fst (save (asset_init (Some \<lparr>http = \<lparr>get_from_cdn = (\<lambda>u. Inr [1, 2, 3])\<rparr>\<rparr>)
          (Some ''/emojis/55.gif''))
        (IOBase \<lparr>writable = True, seekable = True, write_outcome = (\<lambda>b. Inl OSError),
          writes = [], received = [], position = 0\<rparr>) True
        \<lparr>requests = [], files = Map.empty, opened = [], handles = [],
          can_open = (\<lambda>p. p \<noteq> []), can_write = (\<lambda>p. p \<noteq> ''full'')\<rparr>) = Inl OSError
   \<and> fst (save (asset_init (Some \<lparr>http = \<lparr>get_from_cdn = (\<lambda>u. Inr [1, 2, 3])\<rparr>\<rparr>)
          (Some ''/emojis/55.gif''))
        (IOBase \<lparr>writable = True, seekable = False, write_outcome = (\<lambda>b. Inr (length b)),
          writes = [], received = [], position = 0\<rparr>) True
        \<lparr>requests = [], files = Map.empty, opened = [], handles = [],
          can_open = (\<lambda>p. p \<noteq> []), can_write = (\<lambda>p. p \<noteq> ''full'')\<rparr>) = Inl UnsupportedOperation
   \<and> fst (save (asset_init (Some \<lparr>http = \<lparr>get_from_cdn = (\<lambda>u. Inr [1, 2, 3])\<rparr>\<rparr>)
          (Some ''/emojis/55.gif''))
        (PathLike ''out.gif'') True
        \<lparr>requests = [], files = Map.empty, opened = [], handles = [],
          can_open = (\<lambda>p. p \<noteq> []), can_write = (\<lambda>p. p \<noteq> ''full'')\<rparr>) = Inr 3
   \<and> files (snd (snd (save (asset_init (Some \<lparr>http = \<lparr>get_from_cdn = (\<lambda>u. Inr [1, 2, 3])\<rparr>\<rparr>)
          (Some ''/emojis/55.gif''))
        (PathLike ''out.gif'') True
        \<lparr>requests = [], files = Map.empty, opened = [], handles = [],
          can_open = (\<lambda>p. p \<noteq> []), can_write = (\<lambda>p. p \<noteq> ''full'')\<rparr>))) ''out.gif'' = Some [1, 2, 3]
   \<and> fst (save (asset_init (Some \<lparr>http = \<lparr>get_from_cdn = (\<lambda>u. Inr [1, 2, 3])\<rparr>\<rparr>)
          (Some ''/emojis/55.gif''))
        (PathLike '''') True
        \<lparr>requests = [], files = Map.empty, opened = [], handles = [],
          can_open = (\<lambda>p. p \<noteq> []), can_write = (\<lambda>p. p \<noteq> ''full'')\<rparr>) = Inl OSError
   \<and> fst (save (asset_init (Some \<lparr>http = \<lparr>get_from_cdn = (\<lambda>u. Inr [1, 2, 3])\<rparr>\<rparr>)
          (Some ''/emojis/55.gif''))
        (PathLike ''full'') True
        \<lparr>requests = [], files = Map.empty, opened = [], handles = [],
          can_open = (\<lambda>p. p \<noteq> []), can_write = (\<lambda>p. p \<noteq> ''full'')\<rparr>) = Inl OSError"
  using
    save_hands_read_bytes_to_write [where a = "asset_init None None"
      and w = "\<lparr>requests = [], files = Map.empty, opened = [], handles = [],
          can_open = (\<lambda>p. p \<noteq> []), can_write = (\<lambda>p. p \<noteq> ''full'')\<rparr>"
      and e = "DiscordException ''Invalid asset (no URL provided)''"
      and wr = "\<lparr>requests = [], files = Map.empty, opened = [], handles = [],
          can_open = (\<lambda>p. p \<noteq> []), can_write = (\<lambda>p. p \<noteq> ''full'')\<rparr>"
      and dest = "PathLike ''out.gif''" and sb = True]
    save_hands_read_bytes_to_write [where
      a = "(asset_init (Some \<lparr>http = \<lparr>get_from_cdn = (\<lambda>u. Inr [1, 2, 3])\<rparr>\<rparr>)
          (Some ''/emojis/55.gif''))"
      and w = "\<lparr>requests = [], files = Map.empty, opened = [], handles = [],
          can_open = (\<lambda>p. p \<noteq> []), can_write = (\<lambda>p. p \<noteq> ''full'')\<rparr>"
      and data = "[1, 2, 3]" and n = 3
      and wr = "\<lparr>requests = [''https://cdn.discordapp.com/emojis/55.gif''], files = Map.empty,
          opened = [], handles = [],
          can_open = (\<lambda>p. p \<noteq> []), can_write = (\<lambda>p. p \<noteq> ''full'')\<rparr>"
      and f = "\<lparr>writable = True, seekable = True, write_outcome = (\<lambda>b. Inr (length b)),
          writes = [], received = [], position = 0\<rparr>"
      and p = "''out.gif''" and sb = True]
    save_hands_read_bytes_to_write [where
      a = "(asset_init (Some \<lparr>http = \<lparr>get_from_cdn = (\<lambda>u. Inr [1, 2, 3])\<rparr>\<rparr>)
          (Some ''/emojis/55.gif''))"
      and w = "\<lparr>requests = [], files = Map.empty, opened = [], handles = [],
          can_open = (\<lambda>p. p \<noteq> []), can_write = (\<lambda>p. p \<noteq> ''full'')\<rparr>"
      and data = "[1, 2, 3]" and e = OSError
      and wr = "\<lparr>requests = [''https://cdn.discordapp.com/emojis/55.gif''], files = Map.empty,
          opened = [], handles = [],
          can_open = (\<lambda>p. p \<noteq> []), can_write = (\<lambda>p. p \<noteq> ''full'')\<rparr>"
      and f = "\<lparr>writable = True, seekable = True, write_outcome = (\<lambda>b. Inl OSError),
          writes = [], received = [], position = 0\<rparr>"
      and p = "''''" and sb = True]
    save_hands_read_bytes_to_write [where
      a = "(asset_init (Some \<lparr>http = \<lparr>get_from_cdn = (\<lambda>u. Inr [1, 2, 3])\<rparr>\<rparr>)
          (Some ''/emojis/55.gif''))"
      and w = "\<lparr>requests = [], files = Map.empty, opened = [], handles = [],
          can_open = (\<lambda>p. p \<noteq> []), can_write = (\<lambda>p. p \<noteq> ''full'')\<rparr>"
      and data = "[1, 2, 3]" and n = 3
      and wr = "\<lparr>requests = [''https://cdn.discordapp.com/emojis/55.gif''], files = Map.empty,
          opened = [], handles = [],
          can_open = (\<lambda>p. p \<noteq> []), can_write = (\<lambda>p. p \<noteq> ''full'')\<rparr>"
      and f = "\<lparr>writable = True, seekable = False, write_outcome = (\<lambda>b. Inr (length b)),
          writes = [], received = [], position = 0\<rparr>"
      and p = "''full''" and sb = True]
  by (simp add: read_def asset_init_def BASE_def no_url_error_def)

text \<open>
  C9. The destination is written to as a sink only when it is an \<^verbatim>\<open>io.IOBase\<close> object
  and \<^verbatim>\<open>writable()\<close> answers true: then the data goes to its \<^verbatim>\<open>write\<close> and \<^verbatim>\<open>open\<close> is
  not called. An \<^verbatim>\<open>io.IOBase\<close> object that is not writable is not rejected by \<^verbatim>\<open>save\<close>:
  it takes the branch of a path, is handed to \<^verbatim>\<open>open(fp, 'wb')\<close> as it is, and nothing is
  written to it. A path takes the same branch.
\<close>

theorem save_sink_needs_writable:
  "(read a w = (Inr data, wr) \<and> \<not> writable f \<longrightarrow>
      save a (IOBase f) sb w = save_to_path (IOBase f) data wr
      \<and> opened (snd (snd (save a (IOBase f) sb w))) = opened wr @ [IOBase f]
      \<and> fst (snd (save a (IOBase f) sb w)) = IOBase f)
   \<and> (read a w = (Inr data, wr) \<and> writable f \<longrightarrow>
      opened (snd (snd (save a (IOBase f) sb w))) = opened wr
      \<and> fp_writes (fst (snd (save a (IOBase f) sb w))) = writes f @ [data])
   \<and> (read a w = (Inr data, wr) \<longrightarrow>
      save a (PathLike p) sb w = save_to_path (PathLike p) data wr
      \<and> opened (snd (snd (save a (PathLike p) sb w))) = opened wr @ [PathLike p])"
proof -
  have fall: "read a w = (Inr data, wr) \<and> \<not> writable f \<longrightarrow>
      save a (IOBase f) sb w = save_to_path (IOBase f) data wr
      \<and> opened (snd (snd (save a (IOBase f) sb w))) = opened wr @ [IOBase f]
      \<and> fst (snd (save a (IOBase f) sb w)) = IOBase f"
    using save_falls_through[of a w data wr f sb] by (simp add: save_to_path_IOBase)
  have sink: "read a w = (Inr data, wr) \<and> writable f \<longrightarrow>
      opened (snd (snd (save a (IOBase f) sb w))) = opened wr
      \<and> fp_writes (fst (snd (save a (IOBase f) sb w))) = writes f @ [data]"
    using save_write_logged[of a w data wr f sb] by simp
  have path: "read a w = (Inr data, wr) \<longrightarrow>
      save a (PathLike p) sb w = save_to_path (PathLike p) data wr
      \<and> opened (snd (snd (save a (PathLike p) sb w))) = opened wr @ [PathLike p]"
    using save_path[of a w data wr p sb] by (simp add: save_to_path_opened)
  from fall sink path show ?thesis by blast
qed

theorem save_sink_needs_writable_witness:
  "save (asset_init (Some \<lparr>http = \<lparr>get_from_cdn = (\<lambda>u. Inr [1, 2, 3])\<rparr>\<rparr>)
          (Some ''/emojis/55.gif''))
       (IOBase \<lparr>writable = False, seekable = True, write_outcome = (\<lambda>b. Inl UnsupportedOperation),
          writes = [], received = [], position = 0\<rparr>) True
       \<lparr>requests = [], files = Map.empty, opened = [], handles = [],
          can_open = (\<lambda>p. p \<noteq> []), can_write = (\<lambda>p. p \<noteq> ''full'')\<rparr>
     = save_to_path (IOBase \<lparr>writable = False, seekable = True, write_outcome = (\<lambda>b. Inl UnsupportedOperation),
          writes = [], received = [], position = 0\<rparr>) [1, 2, 3]
        \<lparr>requests = [''https://cdn.discordapp.com/emojis/55.gif''], files = Map.empty,
          opened = [], handles = [],
          can_open = (\<lambda>p. p \<noteq> []), can_write = (\<lambda>p. p \<noteq> ''full'')\<rparr>
   \<and> opened (snd (snd (save (asset_init (Some \<lparr>http = \<lparr>get_from_cdn = (\<lambda>u. Inr [1, 2, 3])\<rparr>\<rparr>)
          (Some ''/emojis/55.gif''))
       (IOBase \<lparr>writable = False, seekable = True, write_outcome = (\<lambda>b. Inl UnsupportedOperation),
          writes = [], received = [], position = 0\<rparr>) True
       \<lparr>requests = [], files = Map.empty, opened = [], handles = [],
          can_open = (\<lambda>p. p \<noteq> []), can_write = (\<lambda>p. p \<noteq> ''full'')\<rparr>)))
     = [IOBase \<lparr>writable = False, seekable = True, write_outcome = (\<lambda>b. Inl UnsupportedOperation),
          writes = [], received = [], position = 0\<rparr>]
   \<and> opened (snd (snd (save (asset_init (Some \<lparr>http = \<lparr>get_from_cdn = (\<lambda>u. Inr [1, 2, 3])\<rparr>\<rparr>)
          (Some ''/emojis/55.gif''))
       (IOBase \<lparr>writable = True, seekable = True, write_outcome = (\<lambda>b. Inr (length b)),
          writes = [], received = [], position = 0\<rparr>) True
       \<lparr>requests = [], files = Map.empty, opened = [], handles = [],
          can_open = (\<lambda>p. p \<noteq> []), can_write = (\<lambda>p. p \<noteq> ''full'')\<rparr>))) = []
   \<and> fp_writes (fst (snd (save (asset_init (Some \<lparr>http = \<lparr>get_from_cdn = (\<lambda>u. Inr [1, 2, 3])\<rparr>\<rparr>)
          (Some ''/emojis/55.gif''))
       (IOBase \<lparr>writable = True, seekable = True, write_outcome = (\<lambda>b. Inr (length b)),
          writes = [], received = [], position = 0\<rparr>) True
       \<lparr>requests = [], files = Map.empty, opened = [], handles = [],
          can_open = (\<lambda>p. p \<noteq> []), can_write = (\<lambda>p. p \<noteq> ''full'')\<rparr>))) = [[1, 2, 3]]
   \<and> opened (snd (snd (save (asset_init (Some \<lparr>http = \<lparr>get_from_cdn = (\<lambda>u. Inr [1, 2, 3])\<rparr>\<rparr>)
          (Some ''/emojis/55.gif''))
       (PathLike ''out.gif'') True
       \<lparr>requests = [], files = Map.empty, opened = [], handles = [],
          can_open = (\<lambda>p. p \<noteq> []), can_write = (\<lambda>p. p \<noteq> ''full'')\<rparr>))) = [PathLike ''out.gif'']"
  using
    save_sink_needs_writable [where
      a = "(asset_init (Some \<lparr>http = \<lparr>get_from_cdn = (\<lambda>u. Inr [1, 2, 3])\<rparr>\<rparr>)
          (Some ''/emojis/55.gif''))"
      and w = "\<lparr>requests = [], files = Map.empty, opened = [], handles = [],
          can_open = (\<lambda>p. p \<noteq> []), can_write = (\<lambda>p. p \<noteq> ''full'')\<rparr>"
      and data = "[1, 2, 3]"
      and wr = "\<lparr>requests = [''https://cdn.discordapp.com/emojis/55.gif''], files = Map.empty,
          opened = [], handles = [],
          can_open = (\<lambda>p. p \<noteq> []), can_write = (\<lambda>p. p \<noteq> ''full'')\<rparr>"
      and f = "\<lparr>writable = False, seekable = True, write_outcome = (\<lambda>b. Inl UnsupportedOperation),
          writes = [], received = [], position = 0\<rparr>"
      and p = "''out.gif''" and sb = True]
    save_sink_needs_writable [where
      a = "(asset_init (Some \<lparr>http = \<lparr>get_from_cdn = (\<lambda>u. Inr [1, 2, 3])\<rparr>\<rparr>)
          (Some ''/emojis/55.gif''))"
      and w = "\<lparr>requests = [], files = Map.empty, opened = [], handles = [],
          can_open = (\<lambda>p. p \<noteq> []), can_write = (\<lambda>p. p \<noteq> ''full'')\<rparr>"
      and data = "[1, 2, 3]"
      and wr = "\<lparr>requests = [''https://cdn.discordapp.com/emojis/55.gif''], files = Map.empty,
          opened = [], handles = [],
          can_open = (\<lambda>p. p \<noteq> []), can_write = (\<lambda>p. p \<noteq> ''full'')\<rparr>"
      and f = "\<lparr>writable = True, seekable = True, write_outcome = (\<lambda>b. Inr (length b)),
          writes = [], received = [], position = 0\<rparr>"
      and p = "''out.gif''" and sb = True]
  by (simp add: read_def asset_init_def BASE_def save_to_path_def py_open_wb_def
      file_write_def file_close_def)

end
